theory Spec2Isabelle
  imports Main "HOL-Library.Word"
begin

section \<open>Data model of the portfolio modeler\<close>

text \<open>
  The dashboard script \<^verbatim>\<open>app.py\<close> keeps its project portfolio in pandas data frames.
  The script reads the columns \<^verbatim>\<open>Task\<close>, \<^verbatim>\<open>Site\<close>, \<^verbatim>\<open>Start\<close>, \<^verbatim>\<open>Finish\<close>,
  \<^verbatim>\<open>Weekly_Cost_k\<close>, \<^verbatim>\<open>Dependencies\<close> and \<^verbatim>\<open>Status\<close> of the portfolio frame; one row
  of it is the record below. Timestamps are counted in whole days, so that
  \<^verbatim>\<open>timedelta(weeks=n)\<close> is \<open>7 * n\<close>, and are not bounded (the limits of pandas'
  64-bit timestamps and of \<^verbatim>\<open>timedelta\<close> are not modelled); the weekly cost column is an \<^verbatim>\<open>int64\<close> column
  (thousands of currency units), so a cell of it is a 64-bit word read as a signed
  number; a missing dependency (\<^verbatim>\<open>None\<close>) is \<open>None\<close>.
\<close>

type_synonym timestamp = int

record row =
  Task :: string
  Site :: string
  Start :: timestamp
  Finish :: timestamp
  Weekly_Cost_k :: "64 word"
  Dependencies :: "string option"
  Status :: string

text \<open>
  A data frame is the list of its rows in display order, each with its index label.
  Boolean-mask selection keeps the labels of the rows it keeps, and \<^verbatim>\<open>df.loc[label, col]\<close>
  addresses rows by label, so the labels are part of the model.
\<close>

type_synonym dataframe = "(nat \<times> row) list"

definition portfolio_columns :: "string list" where
  "portfolio_columns =
     [''Task'', ''Site'', ''Start'', ''Finish'', ''Weekly_Cost_k'', ''Dependencies'', ''Status'']"

definition empty_df :: "dataframe \<Rightarrow> bool" where
  \<comment> \<open>\<^verbatim>\<open>df.empty\<close>: the frame has columns, so it is empty when it has no row\<close>
  "empty_df df = (df = [])"

definition unique_index :: "dataframe \<Rightarrow> bool" where
  \<comment> \<open>no index label occurs twice (pandas' default index, kept by selection and copy)\<close>
  "unique_index df = distinct (map fst df)"

text \<open>
  Data frames are mutable objects that the script shares by reference. The store holds
  one frame per address; \<^verbatim>\<open>.copy()\<close> and selection allocate a new cell at the end of the
  store, and an in-place update replaces the content of a cell.
\<close>

type_synonym addr = nat
type_synonym heap = "dataframe list"

definition new_df :: "dataframe \<Rightarrow> heap \<Rightarrow> addr \<times> heap" where
  "new_df df h = (length h, h @ [df])"

definition copy_df :: "addr \<Rightarrow> heap \<Rightarrow> addr \<times> heap" where
  \<comment> \<open>\<^verbatim>\<open>df.copy()\<close>\<close>
  "copy_df a h = new_df (h ! a) h"

section \<open>Site filter\<close>

text \<open>
  \<^verbatim>\<open>
  def filter_df_by_site(df, site_col='Site'):
      if site_selection != "West Coast (Overall)" and site_col in df.columns:
          return df[df[site_col] == site_selection].copy()
      return df.copy()
  \<close>
  \<^verbatim>\<open>site_selection\<close> is the script's global, chosen in the sidebar; every call of the
  script leaves \<^verbatim>\<open>site_col\<close> at its default. The selection \<^verbatim>\<open>df[mask]\<close> is a
  temporary that nothing else refers to; its copy is the one new cell of the store.
\<close>

definition site_mask :: "string \<Rightarrow> dataframe \<Rightarrow> dataframe" where
  \<comment> \<open>\<^verbatim>\<open>df[df['Site'] == site_selection]\<close>\<close>
  "site_mask site_selection df = filter (\<lambda>(l, r). Site r = site_selection) df"

definition filter_df_by_site :: "string \<Rightarrow> addr \<Rightarrow> heap \<Rightarrow> addr \<times> heap" where
  "filter_df_by_site site_selection df h =
     (if site_selection \<noteq> ''West Coast (Overall)'' \<and> ''Site'' \<in> set portfolio_columns
      then new_df (site_mask site_selection (h ! df)) h
      else copy_df df h)"

definition loaded :: "string \<Rightarrow> addr \<Rightarrow> heap \<Rightarrow> dataframe" where
  \<comment> \<open>the frame that the caller of \<open>filter_df_by_site\<close> receives\<close>
  "loaded site_selection df h = (let (a, h') = filter_df_by_site site_selection df h in h' ! a)"

section \<open>The delay simulation\<close>

text \<open>
  Lines 240 to 254 of the script, run on every rerun of the page:
  \<^verbatim>\<open>
  gantt_df = st.session_state.edited_portfolio.copy()
  impact_text = ""
  cost_impact = 0
  if delay_weeks > 0 and selected_task and not gantt_df.empty:
      task_row_list = gantt_df[gantt_df['Task'] == selected_task]
      if not task_row_list.empty:
          task_row = task_row_list.iloc[0]
          task_idx = task_row.name
          gantt_df.loc[task_idx, 'Finish'] += timedelta(weeks=delay_weeks)
          cost_impact = delay_weeks * task_row['Weekly_Cost_k']
          dependency_impacted = gantt_df[gantt_df['Dependencies'] == selected_task]
          if not dependency_impacted.empty:
              impacted_task_name = dependency_impacted.iloc[0]['Task']
              impact_text = f"... Delaying '{selected_task}' will cause a cascading
                              delay to **'{impacted_task_name}'**."
  \<close>
  \<^verbatim>\<open>selected_task\<close> is \<^verbatim>\<open>None\<close> or a string, and Python takes \<^verbatim>\<open>None\<close> and the empty
  string for false. \<^verbatim>\<open>task_row['Weekly_Cost_k']\<close> is a numpy \<^verbatim>\<open>int64\<close> scalar: the product
  of line 250 converts \<^verbatim>\<open>delay_weeks\<close> to \<^verbatim>\<open>int64\<close> and wraps around at 64 bits.
\<close>

definition timedelta_weeks :: "int \<Rightarrow> int" where
  "timedelta_weeks w = 7 * w"

definition truthy :: "string option \<Rightarrow> bool" where
  "truthy selected_task = (case selected_task of None \<Rightarrow> False | Some s \<Rightarrow> s \<noteq> [])"

definition task_mask :: "string \<Rightarrow> dataframe \<Rightarrow> dataframe" where
  \<comment> \<open>\<^verbatim>\<open>df[df['Task'] == selected_task]\<close>\<close>
  "task_mask selected_task df = filter (\<lambda>(l, r). Task r = selected_task) df"

definition dependency_mask :: "string \<Rightarrow> dataframe \<Rightarrow> dataframe" where
  \<comment> \<open>\<^verbatim>\<open>df[df['Dependencies'] == selected_task]\<close>\<close>
  "dependency_mask selected_task df =
     filter (\<lambda>(l, r). Dependencies r = Some selected_task) df"

definition loc_add_Finish :: "nat \<Rightarrow> int \<Rightarrow> dataframe \<Rightarrow> dataframe" where
  \<comment> \<open>\<^verbatim>\<open>df.loc[task_idx, 'Finish'] += td\<close>, on the content of the frame\<close>
  "loc_add_Finish task_idx td df =
     map (\<lambda>(l, r). if l = task_idx then (l, r\<lparr>Finish := Finish r + td\<rparr>) else (l, r)) df"

definition siren :: string where
  \<comment> \<open>U+1F6A8, in UTF-8\<close>
  "siren = [CHR 0xF0, CHR 0x9F, CHR 0x9A, CHR 0xA8]"

definition check_mark :: string where
  \<comment> \<open>U+2705, in UTF-8\<close>
  "check_mark = [CHR 0xE2, CHR 0x9C, CHR 0x85]"

definition dependency_alert :: "string \<Rightarrow> string \<Rightarrow> string" where
  "dependency_alert selected_task impacted_task_name =
     siren @ '' **Dependency Alert:** Delaying '' @ [CHR 0x27] @ selected_task @ [CHR 0x27]
       @ '' will cause a cascading delay to **'' @ [CHR 0x27] @ impacted_task_name
       @ [CHR 0x27] @ ''**.''"

definition np_int64_mul :: "int \<Rightarrow> 64 word \<Rightarrow> int" where
  \<comment> \<open>\<^verbatim>\<open>delay_weeks * task_row['Weekly_Cost_k']\<close>: the \<^verbatim>\<open>int64\<close> product, read as signed\<close>
  "np_int64_mul delay_weeks weekly_cost = sint (word_of_int delay_weeks * weekly_cost)"

definition delay_applies :: "int \<Rightarrow> string option \<Rightarrow> dataframe \<Rightarrow> bool" where
  \<comment> \<open>the guard of line 244\<close>
  "delay_applies delay_weeks selected_task gantt \<longleftrightarrow>
     delay_weeks > 0 \<and> truthy selected_task \<and> \<not> empty_df gantt"

record simulation =
  gantt_df :: addr
  impact_text :: string
  cost_impact :: int

definition simulate :: "addr \<Rightarrow> string option \<Rightarrow> int \<Rightarrow> heap \<Rightarrow> simulation \<times> heap" where
  "simulate edited selected_task delay_weeks h =
     (let (gantt, h1) = copy_df edited h;
          unchanged = (\<lparr>gantt_df = gantt, impact_text = [], cost_impact = 0\<rparr>, h1)
      in if delay_applies delay_weeks selected_task (h1 ! gantt) then
           (case selected_task of
              None \<Rightarrow> unchanged
            | Some sel \<Rightarrow>
               (case task_mask sel (h1 ! gantt) of
                  [] \<Rightarrow> unchanged
                | (task_idx, task_row) # _ \<Rightarrow>
                   (let h2 = h1[gantt := loc_add_Finish task_idx (timedelta_weeks delay_weeks)
                                           (h1 ! gantt)];
                        cost = np_int64_mul delay_weeks (Weekly_Cost_k task_row)
                    in (case dependency_mask sel (h2 ! gantt) of
                          [] \<Rightarrow> (\<lparr>gantt_df = gantt, impact_text = [], cost_impact = cost\<rparr>, h2)
                        | (_, impacted) # _ \<Rightarrow>
                            (\<lparr>gantt_df = gantt,
                              impact_text = dependency_alert sel (Task impacted),
                              cost_impact = cost\<rparr>, h2)))))
         else unchanged)"




definition sim_frame :: "addr \<Rightarrow> string option \<Rightarrow> int \<Rightarrow> heap \<Rightarrow> dataframe" where
  \<comment> \<open>the schedule that the simulation hands to the chart\<close>
  "sim_frame edited selected_task delay_weeks h =
     (let (s, h') = simulate edited selected_task delay_weeks h in h' ! gantt_df s)"

definition sim_cost :: "addr \<Rightarrow> string option \<Rightarrow> int \<Rightarrow> heap \<Rightarrow> int" where
  "sim_cost edited selected_task delay_weeks h =
     cost_impact (fst (simulate edited selected_task delay_weeks h))"

definition sim_text :: "addr \<Rightarrow> string option \<Rightarrow> int \<Rightarrow> heap \<Rightarrow> string" where
  "sim_text edited selected_task delay_weeks h =
     impact_text (fst (simulate edited selected_task delay_weeks h))"

definition sim_heap :: "addr \<Rightarrow> string option \<Rightarrow> int \<Rightarrow> heap \<Rightarrow> heap" where
  "sim_heap edited selected_task delay_weeks h =
     snd (simulate edited selected_task delay_weeks h)"

section \<open>The page\<close>

text \<open>
  Lines 223 to 267: the page loads the portfolio for the site, creates or resets the
  working copy kept in the session state, reads the two controls, runs the simulation
  and shows the metric, the message and the chart. What the widgets return on this rerun
  is an input of the page.
\<close>

record session_state =
  edited_portfolio :: "addr option"

record widgets =
  reset_button :: bool
  selectbox_task :: string
  slider_weeks :: int

datatype element =
    St_warning string
  | St_metric string int
  | St_error string
  | St_success string
  | St_plotly_chart dataframe

definition reset_simulation ::
  "addr \<Rightarrow> session_state \<Rightarrow> heap \<Rightarrow> addr \<times> session_state \<times> heap" where
  \<comment> \<open>line 226: \<^verbatim>\<open>st.session_state.edited_portfolio = portfolio_df.copy()\<close>\<close>
  "reset_simulation portfolio_df ss h =
     (let (c, h') = copy_df portfolio_df h in (c, ss\<lparr>edited_portfolio := Some c\<rparr>, h'))"

definition simulation_controls :: "widgets \<Rightarrow> dataframe \<Rightarrow> string option \<times> int \<times> element list" where
  \<comment> \<open>lines 231 to 237\<close>
  "simulation_controls w edited =
     (if \<not> empty_df edited then (Some (selectbox_task w), slider_weeks w, [])
      else (None, 0, [St_warning ''No portfolio data for selected site.'']))"

definition impact_message :: "string \<Rightarrow> element" where
  \<comment> \<open>lines 260 to 263\<close>
  "impact_message text =
     (if text \<noteq> [] then St_error text
      else St_success (check_mark @ '' No direct dependency conflicts detected.''))"

definition portfolio_modeler ::
  "string \<Rightarrow> addr \<Rightarrow> widgets \<Rightarrow> session_state \<times> heap \<Rightarrow> element list \<times> session_state \<times> heap" where
  \<comment> \<open>line 225: the button is read only when a working copy exists\<close>
  "portfolio_modeler site_selection data_portfolio_df w st =
     (let (ss, h) = st;
          (portfolio_df, h1) = filter_df_by_site site_selection data_portfolio_df h;
          (edited, ss1, h2) =
             (case edited_portfolio ss of
                None \<Rightarrow> reset_simulation portfolio_df ss h1
              | Some e \<Rightarrow> if reset_button w then reset_simulation portfolio_df ss h1
                          else (e, ss, h1));
          (selected_task, delay_weeks, controls) = simulation_controls w (h2 ! edited);
          (s, h3) = simulate edited selected_task delay_weeks h2
      in (controls @
          [St_metric ''Calculated Budget Impact'' (cost_impact s),
           impact_message (impact_text s),
           St_plotly_chart (h3 ! gantt_df s)], ss1, h3))"

fun reruns ::
  "nat \<Rightarrow> string \<Rightarrow> addr \<Rightarrow> widgets \<Rightarrow> session_state \<times> heap \<Rightarrow> session_state \<times> heap" where
  "reruns 0 site_selection data_portfolio_df w st = st"
| "reruns (Suc n) site_selection data_portfolio_df w st =
     reruns n site_selection data_portfolio_df w
       (snd (portfolio_modeler site_selection data_portfolio_df w st))"


section \<open>Vocabulary of the properties\<close>

text \<open>
  The working copy that a rerun of the page simulates on: the stored frame, or the
  filtered portfolio when the session has none yet or the reset button was pressed.
\<close>

definition working_copy :: "string \<Rightarrow> addr \<Rightarrow> widgets \<Rightarrow> session_state \<times> heap \<Rightarrow> dataframe" where
  "working_copy site_selection data_portfolio_df w st =
     (let (ss, h) = st in
      case edited_portfolio ss of
        None \<Rightarrow> loaded site_selection data_portfolio_df h
      | Some e \<Rightarrow> if reset_button w then loaded site_selection data_portfolio_df h else h ! e)"

text \<open>What the page shows for a working copy with a given content.\<close>

definition view :: "widgets \<Rightarrow> dataframe \<Rightarrow> element list" where
  "view w edited =
     (let (selected_task, delay_weeks, controls) = simulation_controls w edited
      in controls @
         [St_metric ''Calculated Budget Impact'' (sim_cost 0 selected_task delay_weeks [edited]),
          impact_message (sim_text 0 selected_task delay_weeks [edited]),
          St_plotly_chart (sim_frame 0 selected_task delay_weeks [edited])])"

text \<open>Every reference of the program points into the store.\<close>

definition wf_state :: "addr \<Rightarrow> session_state \<times> heap \<Rightarrow> bool" where
  "wf_state data_portfolio_df st =
     (let (ss, h) = st in
      data_portfolio_df < length h \<and>
      (case edited_portfolio ss of None \<Rightarrow> True | Some e \<Rightarrow> e < length h))"

subsection \<open>A small portfolio\<close>

definition task_A :: row where
  "task_A = \<lparr>Task = ''A'', Site = ''Seattle'', Start = 0, Finish = 7, Weekly_Cost_k = 10,
             Dependencies = None, Status = ''On Track''\<rparr>"

definition task_B :: row where
  "task_B = \<lparr>Task = ''B'', Site = ''San Diego'', Start = 7, Finish = 21, Weekly_Cost_k = 5,
             Dependencies = Some ''A'', Status = ''At Risk''\<rparr>"

definition task_C :: row where
  "task_C = \<lparr>Task = ''C'', Site = ''Seattle'', Start = 7, Finish = 14, Weekly_Cost_k = 2,
             Dependencies = Some ''A'', Status = ''On Track''\<rparr>"

definition task_unnamed :: row where
  "task_unnamed = \<lparr>Task = [], Site = ''Seattle'', Start = 0, Finish = 7, Weekly_Cost_k = 10,
             Dependencies = None, Status = ''On Track''\<rparr>"

definition example_df :: dataframe where
  "example_df = [(0, task_A), (1, task_B), (2, task_C)]"

definition task_costly :: row where
  "task_costly = \<lparr>Task = ''E'', Site = ''Seattle'', Start = 0, Finish = 7,
             Weekly_Cost_k = 9223372036854775807, Dependencies = None, Status = ''On Track''\<rparr>"

definition task_D :: row where
  "task_D = \<lparr>Task = ''D'', Site = ''Seattle'', Start = 7, Finish = 14, Weekly_Cost_k = 3,
             Dependencies = Some [], Status = ''On Track''\<rparr>"

definition unnamed_df :: dataframe where
  "unnamed_df = [(0, task_unnamed), (1, task_D)]"


lemmas ex_defs = task_A_def task_B_def task_C_def example_df_def

section \<open>Auxiliary facts\<close>

subsection \<open>The site filter\<close>

lemma site_in_portfolio_columns: "''Site'' \<in> set portfolio_columns"
  by (simp add: portfolio_columns_def)

lemma loaded_eq:
  "loaded s df h = (if s \<noteq> ''West Coast (Overall)'' then site_mask s (h ! df) else h ! df)"
  by (simp add: loaded_def filter_df_by_site_def copy_df_def new_df_def
      site_in_portfolio_columns nth_append)

subsection \<open>The simulation\<close>


lemma copy_df_eq: "copy_df a h = (length h, h @ [h ! a])"
  by (simp add: copy_df_def new_df_def)

lemma simulate_guard_false:
  "\<not> delay_applies d sel (h ! ep) \<Longrightarrow>
   simulate ep sel d h = (\<lparr>gantt_df = length h, impact_text = [], cost_impact = 0\<rparr>, h @ [h ! ep])"
  by (simp add: simulate_def copy_df_eq)

lemma simulate_no_match:
  "task_mask t (h ! ep) = [] \<Longrightarrow>
   simulate ep (Some t) d h = (\<lparr>gantt_df = length h, impact_text = [], cost_impact = 0\<rparr>, h @ [h ! ep])"
  by (simp add: simulate_def copy_df_eq Let_def)

lemma loc_add_Finish_Nil: "loc_add_Finish l td [] = []"
  by (simp add: loc_add_Finish_def)

lemma loc_add_Finish_Cons:
  "loc_add_Finish l td ((a, r) # xs) =
     (if a = l then (a, r\<lparr>Finish := Finish r + td\<rparr>) else (a, r)) # loc_add_Finish l td xs"
  by (simp add: loc_add_Finish_def)

lemma dependency_mask_loc_add:
  "dependency_mask t (loc_add_Finish l td df) = loc_add_Finish l td (dependency_mask t df)"
  by (induction df) (auto simp: dependency_mask_def loc_add_Finish_def split: if_splits)

lemma task_mask_loc_add:
  "task_mask t (loc_add_Finish l td df) = loc_add_Finish l td (task_mask t df)"
  by (induction df) (auto simp: task_mask_def loc_add_Finish_def split: if_splits)

lemma task_mask_nonempty: "task_mask t df = x # rest \<Longrightarrow> df \<noteq> []"
  by (auto simp: task_mask_def)

lemma simulate_match:
  assumes "d > 0" "t \<noteq> []" "task_mask t (h ! ep) = (l, r) # rest"
  shows "simulate ep (Some t) d h =
    (\<lparr>gantt_df = length h,
      impact_text = (case dependency_mask t (h ! ep) of [] \<Rightarrow> []
                     | (l', r') # _ \<Rightarrow> dependency_alert t (Task r')),
      cost_impact = np_int64_mul d (Weekly_Cost_k r)\<rparr>,
     h @ [loc_add_Finish l (7 * d) (h ! ep)])"
proof -
  have g: "delay_applies d (Some t) (h ! ep)"
    using assms task_mask_nonempty by (auto simp: delay_applies_def truthy_def empty_df_def)
  show ?thesis
  proof (cases "dependency_mask t (h ! ep)")
    case Nil
    then show ?thesis using g assms
      by (simp add: simulate_def copy_df_eq Let_def dependency_mask_loc_add timedelta_weeks_def loc_add_Finish_Nil)
  next
    case (Cons a list)
    obtain l' r' where a: "a = (l', r')" by (cases a)
    show ?thesis using g assms Cons a
      by (simp add: simulate_def copy_df_eq Let_def dependency_mask_loc_add timedelta_weeks_def
          loc_add_Finish_Cons)
  qed
qed


lemma np_int64_mul_wrap:
  "np_int64_mul d c = (d * sint c + 2 ^ 63) mod 2 ^ 64 - 2 ^ 63"
proof -
  have "word_of_int d * c = (word_of_int (d * sint c) :: 64 word)"
    by simp
  then have "np_int64_mul d c = signed_take_bit 63 (d * sint c)"
    by (simp only: np_int64_mul_def sint_sbintrunc') simp
  then show ?thesis
    by (simp add: signed_take_bit_eq_take_bit_shift take_bit_eq_mod)
qed

lemma np_int64_mul_exact:
  assumes "- (2 ^ 63) \<le> d * sint c" and "d * sint c < 2 ^ 63"
  shows "np_int64_mul d c = d * sint c"
proof -
  have "0 \<le> d * sint c + 2 ^ 63" and "d * sint c + 2 ^ 63 < 2 ^ 64"
    using assms by simp_all
  then have "(d * sint c + 2 ^ 63) mod 2 ^ 64 = d * sint c + 2 ^ 63"
    by (rule mod_pos_pos_trivial)
  then show ?thesis by (simp add: np_int64_mul_wrap)
qed

lemma filter_first:
  "filter P xs = x # rest \<Longrightarrow> \<exists>i<length xs. xs ! i = x \<and> P x \<and> (\<forall>j<i. \<not> P (xs ! j))"
proof (induction xs)
  case Nil
  then show ?case by simp
next
  case (Cons a xs)
  show ?case
  proof (cases "P a")
    case True
    with Cons.prems have "a = x" by simp
    then show ?thesis using True by (intro exI[of _ 0]) simp
  next
    case False
    with Cons.prems have "filter P xs = x # rest" by simp
    from Cons.IH[OF this] obtain i where i: "i < length xs" "xs ! i = x" "P x" "\<forall>j<i. \<not> P (xs ! j)"
      by blast
    have "\<forall>j<Suc i. \<not> P ((a # xs) ! j)"
      using i(4) False by (auto simp: nth_Cons split: nat.splits)
    then show ?thesis using i by (intro exI[of _ "Suc i"]) simp
  qed
qed

lemma loc_add_Finish_nth:
  "i < length df \<Longrightarrow> df ! i = (l, r) \<Longrightarrow>
   loc_add_Finish l td df ! i = (l, r\<lparr>Finish := Finish r + td\<rparr>)"
  by (simp add: loc_add_Finish_def)


lemma first_match:
  assumes "task_mask t df = (l, r) # rest"
  shows "\<exists>i<length df. df ! i = (l, r) \<and> Task r = t \<and> (\<forall>j<i. Task (snd (df ! j)) \<noteq> t)"
proof -
  from filter_first[OF assms[unfolded task_mask_def]]
  obtain i where i: "i < length df" "df ! i = (l, r)" "Task r = t"
       "\<forall>j<i. \<not> (case df ! j of (l, r) \<Rightarrow> Task r = t)"
    by auto
  have "\<forall>j<i. Task (snd (df ! j)) \<noteq> t"
    using i(4) by (auto simp: case_prod_beta)
  with i show ?thesis by blast
qed

lemma loc_add_unique:
  assumes "unique_index df" "i < length df" "df ! i = (l, r)"
  shows "loc_add_Finish l td df = df[i := (l, r\<lparr>Finish := Finish r + td\<rparr>)]"
proof (rule nth_equalityI)
  show "length (loc_add_Finish l td df) = length (df[i := (l, r\<lparr>Finish := Finish r + td\<rparr>)])"
    by (simp add: loc_add_Finish_def)
next
  fix j assume "j < length (loc_add_Finish l td df)"
  then have j: "j < length df" by (simp add: loc_add_Finish_def)
  have d: "distinct (map fst df)" using assms(1) by (simp add: unique_index_def)
  show "loc_add_Finish l td df ! j = df[i := (l, r\<lparr>Finish := Finish r + td\<rparr>)] ! j"
  proof (cases "j = i")
    case True
    then show ?thesis using assms j by (simp add: loc_add_Finish_def)
  next
    case False
    have "fst (df ! j) \<noteq> l"
      using nth_eq_iff_index_eq[OF d, of j i] j assms(2,3) False by simp
    then show ?thesis using j False
      by (cases "df ! j") (simp add: loc_add_Finish_def)
  qed
qed

lemma twelve_weeks_fit:
  fixes d c :: int
  assumes "1 \<le> d" "d \<le> 12" "- 768614336404564650 \<le> c" "c \<le> 768614336404564650"
  shows "- (2 ^ 63) \<le> d * c \<and> d * c < 2 ^ 63"
proof (cases "0 \<le> c")
  case True
  have "d * c \<le> 12 * c" using assms(2) True by (rule mult_right_mono)
  moreover have "0 \<le> d * c" using assms(1) True by simp
  ultimately show ?thesis using assms(4) by simp
next
  case False
  then have c: "c \<le> 0" by simp
  have "12 * c \<le> d * c" using assms(2) c by (rule mult_right_mono_neg)
  moreover have "d * c \<le> 0" using assms(1) c by (simp add: mult_nonneg_nonpos)
  ultimately show ?thesis using assms(3) by simp
qed

lemma sim_projections:
  "simulate ep sel d h = (s, h') \<Longrightarrow>
   sim_frame ep sel d h = h' ! gantt_df s \<and> sim_cost ep sel d h = cost_impact s \<and>
   sim_text ep sel d h = impact_text s \<and> sim_heap ep sel d h = h'"
  by (simp add: sim_frame_def sim_cost_def sim_text_def sim_heap_def)

lemma sim_frame_match:
  assumes "0 < d" "t \<noteq> []" "task_mask t (h ! ep) = (l, r) # rest"
  shows "sim_frame ep (Some t) d h = loc_add_Finish l (7 * d) (h ! ep)"
  using simulate_match[OF assms] by (simp add: sim_frame_def)

lemma first_match_position:
  assumes "unique_index df" "task_mask t df = (l, r) # rest"
  shows "\<exists>i<length df. df ! i = (l, r) \<and> Task r = t \<and> (\<forall>j<i. Task (snd (df ! j)) \<noteq> t) \<and>
           loc_add_Finish l td df = df[i := (l, r\<lparr>Finish := Finish r + td\<rparr>)]"
proof -
  from filter_first[OF assms(2)[unfolded task_mask_def]]
  obtain i where i: "i < length df" "df ! i = (l, r)" "Task r = t"
       "\<forall>j<i. \<not> (case df ! j of (l, r) \<Rightarrow> Task r = t)"
    by auto
  have "\<forall>j<i. Task (snd (df ! j)) \<noteq> t"
    using i(4) by (auto simp: case_prod_beta)
  with i loc_add_unique[OF assms(1) i(1,2)] show ?thesis by blast
qed

subsection \<open>The page\<close>

lemma filter_df_by_site_eq:
  "filter_df_by_site s b h = (length h, h @ [loaded s b h])"
  by (simp add: loaded_def filter_df_by_site_def copy_df_def new_df_def)

lemma simulate_content:
  "simulate ep sel d h =
     (fst (simulate 0 sel d [h ! ep])\<lparr>gantt_df := length h\<rparr>, h @ [sim_frame 0 sel d [h ! ep]])"
proof (cases "delay_applies d sel (h ! ep)")
  case False
  then show ?thesis
    using simulate_guard_false[of d sel h ep] simulate_guard_false[of d sel "[h ! ep]" 0]
    by (simp add: sim_frame_def)
next
  case True
  then obtain t where t: "sel = Some t" "t \<noteq> []" and d: "0 < d"
    by (auto simp: delay_applies_def truthy_def split: option.splits)
  show ?thesis
  proof (cases "task_mask t (h ! ep)")
    case Nil
    then show ?thesis
      using simulate_no_match[of t h ep d] simulate_no_match[of t "[h ! ep]" 0 d] t
      by (simp add: sim_frame_def)
  next
    case (Cons a rest)
    obtain l r where a: "a = (l, r)" by (cases a)
    show ?thesis
      using simulate_match[OF d t(2), of h ep l r rest]
            simulate_match[OF d t(2), of "[h ! ep]" 0 l r rest] Cons a t
      by (simp add: sim_frame_def)
  qed
qed

lemma sim_frame_content: "sim_frame ep sel d h = sim_frame 0 sel d [h ! ep]"
  using simulate_content[of ep sel d h] by (simp add: sim_frame_def)

lemma simulate_view:
  "simulate ep sel d h = (s, h') \<Longrightarrow>
   cost_impact s = sim_cost 0 sel d [h ! ep] \<and> impact_text s = sim_text 0 sel d [h ! ep] \<and>
   h' ! gantt_df s = sim_frame 0 sel d [h ! ep] \<and> gantt_df s = length h \<and>
   h' = h @ [sim_frame 0 sel d [h ! ep]]"
  using simulate_content[of ep sel d h] by (auto simp: sim_cost_def sim_text_def)

lemma page_keep:
  assumes "edited_portfolio ss = Some e" "\<not> reset_button w" "e < length h"
  shows "portfolio_modeler s b w (ss, h) =
     (view w (h ! e), ss,
      h @ [loaded s b h,
           sim_frame 0 (fst (simulation_controls w (h ! e)))
             (fst (snd (simulation_controls w (h ! e)))) [h ! e]])"
proof -
  obtain sel d controls where c: "simulation_controls w (h ! e) = (sel, d, controls)"
    by (cases "simulation_controls w (h ! e)") auto
  obtain sim h3 where s: "simulate e sel d (h @ [loaded s b h]) = (sim, h3)"
    by (cases "simulate e sel d (h @ [loaded s b h])") auto
  have e: "(h @ [loaded s b h]) ! e = h ! e" using assms(3) by (simp add: nth_append)
  show ?thesis
    using simulate_view[OF s] assms c s e
    by (simp add: portfolio_modeler_def filter_df_by_site_eq view_def nth_append)
qed

lemma page_reset:
  assumes "edited_portfolio ss = None \<or> reset_button w"
  shows "portfolio_modeler s b w (ss, h) =
     (view w (loaded s b h), ss\<lparr>edited_portfolio := Some (Suc (length h))\<rparr>,
      h @ [loaded s b h, loaded s b h,
           sim_frame 0 (fst (simulation_controls w (loaded s b h)))
             (fst (snd (simulation_controls w (loaded s b h)))) [loaded s b h]])"
proof -
  let ?F = "loaded s b h"
  obtain sel d controls where c: "simulation_controls w ?F = (sel, d, controls)"
    by (cases "simulation_controls w ?F") auto
  obtain sim h3 where s: "simulate (Suc (length h)) sel d (h @ [?F, ?F]) = (sim, h3)"
    by (cases "simulate (Suc (length h)) sel d (h @ [?F, ?F])") auto
  have e: "(h @ [?F, ?F]) ! Suc (length h) = ?F"
    by (simp add: nth_append)
  have r: "reset_simulation (length h) ss (h @ [?F]) =
       (Suc (length h), ss\<lparr>edited_portfolio := Some (Suc (length h))\<rparr>, h @ [?F, ?F])"
    by (simp add: reset_simulation_def copy_df_def new_df_def)
  show ?thesis
    using simulate_view[OF s] assms c s e r
    by (auto simp: portfolio_modeler_def filter_df_by_site_eq view_def nth_append split: option.splits)
qed

lemma page_outputs:
  assumes "wf_state b (ss, h)"
  shows "fst (portfolio_modeler s b w (ss, h)) = view w (working_copy s b w (ss, h))"
proof (cases "edited_portfolio ss = None \<or> reset_button w")
  case True
  then show ?thesis using page_reset[OF True, of s b h]
    by (auto simp: working_copy_def split: option.splits)
next
  case False
  then obtain e where e: "edited_portfolio ss = Some e" "\<not> reset_button w" by auto
  then have "e < length h" using assms by (simp add: wf_state_def)
  then show ?thesis using page_keep[OF e, of h s b] e
    by (simp add: working_copy_def)
qed

lemma loaded_cong: "h' ! b = h ! b \<Longrightarrow> loaded s b h' = loaded s b h"
  by (simp add: loaded_eq)

lemma page_step:
  assumes "wf_state b (ss, h)"
  shows "wf_state b (snd (portfolio_modeler s b w (ss, h))) \<and>
         working_copy s b w (snd (portfolio_modeler s b w (ss, h))) = working_copy s b w (ss, h)"
proof (cases "edited_portfolio ss = None \<or> reset_button w")
  case True
  have b: "b < length h" using assms by (simp add: wf_state_def)
  show ?thesis
    using page_reset[OF True, of s b h] True b
    apply (simp add: wf_state_def working_copy_def nth_append split: option.splits)
    apply (auto simp: nth_append loaded_eq)
    done
next
  case False
  then obtain e where e: "edited_portfolio ss = Some e" "\<not> reset_button w" by auto
  have b: "b < length h" and el: "e < length h" using assms e by (simp_all add: wf_state_def)
  show ?thesis
    using page_keep[OF e el, of s b] e b el
    by (simp add: wf_state_def working_copy_def nth_append)
qed

lemma reruns_invariant:
  "wf_state b st \<Longrightarrow>
   wf_state b (reruns n s b w st) \<and> working_copy s b w (reruns n s b w st) = working_copy s b w st"
proof (induction n arbitrary: st)
  case 0
  then show ?case by simp
next
  case (Suc n)
  obtain ss h where st: "st = (ss, h)" by (cases st)
  from page_step[of b ss h s w] Suc.prems st
  have 1: "wf_state b (snd (portfolio_modeler s b w st))"
    and 2: "working_copy s b w (snd (portfolio_modeler s b w st)) = working_copy s b w st"
    by simp_all
  from Suc.IH[OF 1] 2 show ?case by simp
qed

section \<open>The claims\<close>

text \<open>
  Claim C1 (amended). For a delay of 1 to 12 weeks and a non-empty task name that matches
  exactly one row, the cost impact is the delay times the weekly cost of that row,
  exactly, whenever this product fits a signed 64-bit integer; it does so in particular
  for every weekly cost of magnitude up to 768614336404564650. When the delay is zero or
  negative, when the name is empty, when no row matches, or when no task is selected,
  the cost impact is 0.
\<close>

theorem cost_impact_linear:
  "(1 \<le> d \<and> d \<le> 12 \<and> t \<noteq> [] \<and> task_mask t (h ! ep) = [(l, r)] \<longrightarrow>
      (- (2 ^ 63) \<le> d * sint (Weekly_Cost_k r) \<and> d * sint (Weekly_Cost_k r) < 2 ^ 63 \<longrightarrow>
         sim_cost ep (Some t) d h = d * sint (Weekly_Cost_k r)) \<and>
      (- 768614336404564650 \<le> sint (Weekly_Cost_k r) \<and>
       sint (Weekly_Cost_k r) \<le> 768614336404564650 \<longrightarrow>
         sim_cost ep (Some t) d h = d * sint (Weekly_Cost_k r)))
   \<and> (d \<le> 0 \<or> t = [] \<or> task_mask t (h ! ep) = [] \<longrightarrow> sim_cost ep (Some t) d h = 0)
   \<and> sim_cost ep None d h = 0"
proof (intro conjI impI)
  assume a: "1 \<le> d \<and> d \<le> 12 \<and> t \<noteq> [] \<and> task_mask t (h ! ep) = [(l, r)]"
  then have c: "sim_cost ep (Some t) d h = np_int64_mul d (Weekly_Cost_k r)"
    using simulate_match[of d t h ep l r "[]"] by (simp add: sim_cost_def)
  {
    assume "- (2 ^ 63) \<le> d * sint (Weekly_Cost_k r) \<and> d * sint (Weekly_Cost_k r) < 2 ^ 63"
    then show "sim_cost ep (Some t) d h = d * sint (Weekly_Cost_k r)"
      using c np_int64_mul_exact[of d "Weekly_Cost_k r"] by simp
  }
  {
    assume "- 768614336404564650 \<le> sint (Weekly_Cost_k r) \<and>
       sint (Weekly_Cost_k r) \<le> 768614336404564650"
    then have "- (2 ^ 63) \<le> d * sint (Weekly_Cost_k r) \<and> d * sint (Weekly_Cost_k r) < 2 ^ 63"
      using a twelve_weeks_fit[of d "sint (Weekly_Cost_k r)"] by simp
    then show "sim_cost ep (Some t) d h = d * sint (Weekly_Cost_k r)"
      using c np_int64_mul_exact[of d "Weekly_Cost_k r"] by simp
  }
next
  assume a: "d \<le> 0 \<or> t = [] \<or> task_mask t (h ! ep) = []"
  show "sim_cost ep (Some t) d h = 0"
  proof (cases "task_mask t (h ! ep) = []")
    case True
    then show ?thesis using simulate_no_match[of t h ep d] by (simp add: sim_cost_def)
  next
    case False
    with a have "\<not> delay_applies d (Some t) (h ! ep)"
      by (auto simp: delay_applies_def truthy_def)
    then show ?thesis using simulate_guard_false[of d "Some t" h ep] by (simp add: sim_cost_def)
  qed
next
  have "\<not> delay_applies d None (h ! ep)" by (simp add: delay_applies_def truthy_def)
  then show "sim_cost ep None d h = 0"
    using simulate_guard_false[of d None h ep] by (simp add: sim_cost_def)
qed

theorem cost_impact_linear_witness:
  "sim_cost 0 (Some ''A'') 3 [[(0, task_A)]] = 30 \<and> sim_cost 0 (Some ''A'') 0 [[(0, task_A)]] = 0
   \<and> sim_cost 0 (Some ''Z'') 3 [[(0, task_A)]] = 0"
proof -
  have m: "(1::int) \<le> 3 \<and> (3::int) \<le> 12 \<and> ''A'' \<noteq> [] \<and>
      task_mask ''A'' ([[(0, task_A)]] ! 0) = [(0, task_A)]"
    by (simp add: task_A_def task_mask_def)
  have c: "sint (Weekly_Cost_k task_A) = 10" by (simp add: task_A_def)
  have z: "task_mask ''Z'' ([[(0, task_A)]] ! 0) = []"
    by (simp add: task_A_def task_mask_def)
  from cost_impact_linear[of 3 "''A''" "[[(0, task_A)]]" 0 0 task_A] m c
  have 1: "sim_cost 0 (Some ''A'') 3 [[(0, task_A)]] = 30" by simp
  from cost_impact_linear[of 0 "''A''" "[[(0, task_A)]]" 0]
  have 2: "sim_cost 0 (Some ''A'') 0 [[(0, task_A)]] = 0" by simp
  from cost_impact_linear[of 3 "''Z''" "[[(0, task_A)]]" 0] z
  have 3: "sim_cost 0 (Some ''Z'') 3 [[(0, task_A)]] = 0" by simp
  from 1 2 3 show ?thesis by simp
qed

text \<open>
  Claim C1 as stated fails on two inputs. A task whose name is the empty string matches
  exactly one row and is delayed by 3 weeks, yet the guard of line 244 takes the empty
  name for false and the cost impact stays 0 instead of 30. A task with the weekly cost
  9223372036854775807 (the largest \<^verbatim>\<open>int64\<close>) is delayed by 2 weeks: the product of
  line 250 wraps around and the cost impact is \<open>-2\<close>, not 18446744073709551614.
\<close>

theorem cost_impact_counterexample:
  "task_mask [] [(0, task_unnamed)] = [(0, task_unnamed)]
   \<and> sim_cost 0 (Some []) 3 [[(0, task_unnamed)]] = 0
   \<and> 3 * sint (Weekly_Cost_k task_unnamed) = 30
   \<and> task_mask ''E'' [(0, task_costly)] = [(0, task_costly)]
   \<and> sim_cost 0 (Some ''E'') 2 [[(0, task_costly)]] = - 2
   \<and> 2 * sint (Weekly_Cost_k task_costly) = 18446744073709551614"
  by (simp add: task_mask_def task_unnamed_def task_costly_def sim_cost_def simulate_def
      copy_df_def new_df_def delay_applies_def truthy_def empty_df_def np_int64_mul_def
      loc_add_Finish_def timedelta_weeks_def dependency_mask_def)

text \<open>
  Claim C2 (amended). When the delay is positive and exactly one row of the stored working
  copy carries the selected non-empty name, the simulator sets the finish of that row
  to its original finish plus the delay (7 days per week) in \<^verbatim>\<open>gantt_df\<close>, a fresh copy
  of the stored working copy. The copy lives at another address than the stored working
  copy; the stored working copy and every other frame of the store keep their content.
  On a rerun of the page without reset whose widgets return that name and that delay,
  the session state is unchanged and still refers to the unshifted frame, and the chart
  shows the shifted copy.
\<close>

theorem delay_written_to_copy_only:
  assumes "0 < d" and "t \<noteq> []" and "ep < length h" and "task_mask t (h ! ep) = [(l, r)]"
  shows "(\<exists>i<length (h ! ep). (h ! ep) ! i = (l, r) \<and>
            sim_frame ep (Some t) d h ! i = (l, r\<lparr>Finish := Finish r + 7 * d\<rparr>))
       \<and> gantt_df (fst (simulate ep (Some t) d h)) \<noteq> ep
       \<and> sim_heap ep (Some t) d h ! ep = h ! ep
       \<and> take (length h) (sim_heap ep (Some t) d h) = h
       \<and> (edited_portfolio ss = Some ep \<and> \<not> reset_button w \<and> selectbox_task w = t \<and>
          slider_weeks w = d \<longrightarrow>
            fst (snd (portfolio_modeler s b w (ss, h))) = ss \<and>
            snd (snd (portfolio_modeler s b w (ss, h))) ! ep = h ! ep \<and>
            last (fst (portfolio_modeler s b w (ss, h))) =
              St_plotly_chart (sim_frame ep (Some t) d h))"
proof -
  note m = simulate_match[OF assms(1,2,4)]
  from first_match[OF assms(4)]
  obtain i where i: "i < length (h ! ep)" "(h ! ep) ! i = (l, r)"
    by blast
  have f: "sim_frame ep (Some t) d h = loc_add_Finish l (7 * d) (h ! ep)"
    by (rule sim_frame_match[OF assms(1,2,4)])
  have 1: "\<exists>i<length (h ! ep). (h ! ep) ! i = (l, r) \<and>
            sim_frame ep (Some t) d h ! i = (l, r\<lparr>Finish := Finish r + 7 * d\<rparr>)"
    using i loc_add_Finish_nth[OF i, of "7 * d"] f by (intro exI[of _ i]) simp
  have 2: "gantt_df (fst (simulate ep (Some t) d h)) \<noteq> ep"
    using m assms(3) by simp
  have 3: "sim_heap ep (Some t) d h ! ep = h ! ep"
    using m assms(3) by (simp add: sim_heap_def nth_append)
  have 4: "take (length h) (sim_heap ep (Some t) d h) = h"
    using m by (simp add: sim_heap_def)
  have ne: "h ! ep \<noteq> []" using assms(4) task_mask_nonempty by blast
  have 5: "fst (snd (portfolio_modeler s b w (ss, h))) = ss \<and>
            snd (snd (portfolio_modeler s b w (ss, h))) ! ep = h ! ep \<and>
            last (fst (portfolio_modeler s b w (ss, h))) =
              St_plotly_chart (sim_frame ep (Some t) d h)"
    if a: "edited_portfolio ss = Some ep \<and> \<not> reset_button w \<and> selectbox_task w = t \<and>
          slider_weeks w = d"
  proof -
    have k: "edited_portfolio ss = Some ep" "\<not> reset_button w" using a by simp_all
    have c: "simulation_controls w (h ! ep) = (Some t, d, [])"
      using a ne by (simp add: simulation_controls_def empty_df_def)
    show ?thesis
      using page_keep[OF k assms(3), of s b] assms(3) c sim_frame_content[of ep "Some t" d h]
      by (simp add: view_def nth_append)
  qed
  show ?thesis using 1 2 3 4 5 by blast
qed

theorem delay_written_to_copy_only_witness:
  "sim_heap 0 (Some ''A'') 3 [example_df] ! 0 = example_df
   \<and> gantt_df (fst (simulate 0 (Some ''A'') 3 [example_df])) \<noteq> 0"
proof -
  have m: "task_mask ''A'' ([example_df] ! 0) = [(0, task_A)]"
    by (simp add: ex_defs task_mask_def)
  from delay_written_to_copy_only[OF _ _ _ m, of 3]
  show ?thesis by simp
qed

text \<open>
  Claim C2 as stated fails: task \<^verbatim>\<open>A\<close> is the only row of that name and is delayed by
  3 weeks. The rendered copy has finish 28, but the stored working copy at address 0 is
  unchanged and its row still has finish 7, so nothing persists.
\<close>

theorem delay_not_written_back_counterexample:
  "task_mask ''A'' example_df = [(0, task_A)]
   \<and> sim_frame 0 (Some ''A'') 3 [example_df] ! 0 = (0, task_A\<lparr>Finish := 28\<rparr>)
   \<and> sim_heap 0 (Some ''A'') 3 [example_df] ! 0 = example_df
   \<and> Finish (snd (sim_heap 0 (Some ''A'') 3 [example_df] ! 0 ! 0)) = 7"
  by (simp add: task_mask_def ex_defs sim_frame_def sim_heap_def simulate_def
      copy_df_def new_df_def delay_applies_def truthy_def empty_df_def loc_add_Finish_def
      timedelta_weeks_def dependency_mask_def)

text \<open>
  Claim C3 (amended). When the delay is positive and the selected task name is not empty
  and matches at least one row, the cascade result is decided by the rows whose
  \<^verbatim>\<open>Dependencies\<close> equals that name. If there is none, the impact text is empty and the
  page shows the no-conflict message. Otherwise the alert names the delayed task and the
  task of the first such row in the order of the frame, no earlier row depends on the
  delayed task, and later dependents are not reported. When the delay is zero or
  negative, the name is empty, or no row matches, the impact text is empty and the page
  shows the no-conflict message, whatever depends on that name.
\<close>

theorem cascade_first_dependent:
  "(0 < d \<and> t \<noteq> [] \<and> task_mask t (h ! ep) \<noteq> [] \<longrightarrow>
      (dependency_mask t (h ! ep) = [] \<longrightarrow>
            sim_text ep (Some t) d h = [] \<and>
            impact_message (sim_text ep (Some t) d h) =
              St_success (check_mark @ '' No direct dependency conflicts detected.''))
       \<and> (\<forall>l' r' rest. dependency_mask t (h ! ep) = (l', r') # rest \<longrightarrow>
            (\<exists>i<length (h ! ep). (h ! ep) ! i = (l', r') \<and> Dependencies r' = Some t \<and>
                (\<forall>j<i. Dependencies (snd ((h ! ep) ! j)) \<noteq> Some t))
            \<and> sim_text ep (Some t) d h =
                siren @ '' **Dependency Alert:** Delaying '' @ [CHR 0x27] @ t @ [CHR 0x27]
                  @ '' will cause a cascading delay to **'' @ [CHR 0x27] @ Task r'
                  @ [CHR 0x27] @ ''**.''
            \<and> impact_message (sim_text ep (Some t) d h) = St_error (sim_text ep (Some t) d h)))
   \<and> (d \<le> 0 \<or> t = [] \<or> task_mask t (h ! ep) = [] \<longrightarrow>
        sim_text ep (Some t) d h = [] \<and>
        impact_message (sim_text ep (Some t) d h) =
          St_success (check_mark @ '' No direct dependency conflicts detected.''))"
proof (intro conjI impI allI)
  assume a: "d \<le> 0 \<or> t = [] \<or> task_mask t (h ! ep) = []"
  have s: "simulate ep (Some t) d h =
      (\<lparr>gantt_df = length h, impact_text = [], cost_impact = 0\<rparr>, h @ [h ! ep])"
  proof (cases "task_mask t (h ! ep) = []")
    case True
    then show ?thesis by (rule simulate_no_match)
  next
    case False
    with a have "\<not> delay_applies d (Some t) (h ! ep)"
      by (auto simp: delay_applies_def truthy_def)
    then show ?thesis by (rule simulate_guard_false)
  qed
  show "sim_text ep (Some t) d h = []" using s by (simp add: sim_text_def)
  then show "impact_message (sim_text ep (Some t) d h) =
          St_success (check_mark @ '' No direct dependency conflicts detected.'')"
    by (simp add: impact_message_def)
next
  assume a: "0 < d \<and> t \<noteq> [] \<and> task_mask t (h ! ep) \<noteq> []"
  then obtain l r more where m: "task_mask t (h ! ep) = (l, r) # more"
    by (cases "task_mask t (h ! ep)") auto
  have s: "simulate ep (Some t) d h =
    (\<lparr>gantt_df = length h,
      impact_text = (case dependency_mask t (h ! ep) of [] \<Rightarrow> []
                     | (l', r') # _ \<Rightarrow> dependency_alert t (Task r')),
      cost_impact = np_int64_mul d (Weekly_Cost_k r)\<rparr>,
     h @ [loc_add_Finish l (7 * d) (h ! ep)])"
    using a m by (intro simulate_match) simp_all
  have nonempty: "dependency_alert t n \<noteq> []" for n
    by (simp add: dependency_alert_def siren_def)
  {
    assume "dependency_mask t (h ! ep) = []"
    then show "sim_text ep (Some t) d h = []"
      using s by (simp add: sim_text_def)
    then show "impact_message (sim_text ep (Some t) d h) =
              St_success (check_mark @ '' No direct dependency conflicts detected.'')"
      by (simp add: impact_message_def)
  }
  {
    fix l' r' rest assume b: "dependency_mask t (h ! ep) = (l', r') # rest"
    from filter_first[OF b[unfolded dependency_mask_def]]
    obtain i where i: "i < length (h ! ep)" "(h ! ep) ! i = (l', r')"
       "Dependencies r' = Some t"
       "\<forall>j<i. \<not> (case (h ! ep) ! j of (l, r) \<Rightarrow> Dependencies r = Some t)"
      by auto
    have "\<forall>j<i. Dependencies (snd ((h ! ep) ! j)) \<noteq> Some t"
      using i(4) by (auto simp: case_prod_beta)
    with i show "\<exists>i<length (h ! ep). (h ! ep) ! i = (l', r') \<and> Dependencies r' = Some t \<and>
                (\<forall>j<i. Dependencies (snd ((h ! ep) ! j)) \<noteq> Some t)"
      by blast
    have alert: "sim_text ep (Some t) d h = dependency_alert t (Task r')"
      using s b by (simp add: sim_text_def)
    show "sim_text ep (Some t) d h =
                siren @ '' **Dependency Alert:** Delaying '' @ [CHR 0x27] @ t @ [CHR 0x27]
                  @ '' will cause a cascading delay to **'' @ [CHR 0x27] @ Task r'
                  @ [CHR 0x27] @ ''**.''"
      using alert by (simp add: dependency_alert_def)
    show "impact_message (sim_text ep (Some t) d h) = St_error (sim_text ep (Some t) d h)"
      using alert nonempty by (simp add: impact_message_def)
  }
qed

theorem cascade_first_dependent_witness:
  "sim_text 0 (Some ''A'') 3 [example_df] = dependency_alert ''A'' ''B''
   \<and> dependency_mask ''A'' example_df = [(1, task_B), (2, task_C)]
   \<and> sim_text 0 (Some ''B'') 3 [example_df] = []
   \<and> sim_text 0 (Some ''A'') 0 [example_df] = []"
  using cascade_first_dependent[of 3 "''A''" "[example_df]" 0]
        cascade_first_dependent[of 3 "''B''" "[example_df]" 0]
        cascade_first_dependent[of 0 "''A''" "[example_df]" 0]
  by (simp add: ex_defs task_mask_def dependency_mask_def dependency_alert_def)

text \<open>
  Claim C3 as stated fails for a task whose name is the empty string: it is the only row
  of that name, task \<^verbatim>\<open>D\<close> depends on it and the delay is 3 weeks, yet the guard of
  line 244 takes the empty name for false, no alert is produced and the page shows the
  no-conflict message.
\<close>

theorem cascade_empty_name_counterexample:
  "task_mask [] unnamed_df = [(0, task_unnamed)]
   \<and> dependency_mask [] unnamed_df = [(1, task_D)]
   \<and> sim_text 0 (Some []) 3 [unnamed_df] = []
   \<and> impact_message (sim_text 0 (Some []) 3 [unnamed_df]) =
       St_success (check_mark @ '' No direct dependency conflicts detected.'')"
  by (simp add: task_mask_def dependency_mask_def unnamed_df_def task_unnamed_def task_D_def
      sim_text_def simulate_def copy_df_def new_df_def delay_applies_def truthy_def
      impact_message_def)

text \<open>
  Claim C4. With a delay of 0 weeks the simulation is the identity, for every task name
  (or none) and every working copy: the frame handed to the chart equals the working
  copy, the store is only extended by that copy, the cost impact is 0 and there is no
  cascade message, so the page shows the no-conflict message.
\<close>

theorem zero_delay_identity:
  "simulate ep sel 0 h =
     (\<lparr>gantt_df = length h, impact_text = [], cost_impact = 0\<rparr>, h @ [h ! ep])
   \<and> sim_frame ep sel 0 h = h ! ep
   \<and> sim_cost ep sel 0 h = 0
   \<and> sim_text ep sel 0 h = []
   \<and> impact_message (sim_text ep sel 0 h) =
       St_success (check_mark @ '' No direct dependency conflicts detected.'')"
proof -
  have "\<not> delay_applies 0 sel (h ! ep)" by (simp add: delay_applies_def)
  then have s: "simulate ep sel 0 h =
     (\<lparr>gantt_df = length h, impact_text = [], cost_impact = 0\<rparr>, h @ [h ! ep])"
    by (rule simulate_guard_false)
  show ?thesis using sim_projections[OF s] s by (simp add: impact_message_def)
qed

theorem zero_delay_identity_witness:
  "sim_frame 0 (Some ''A'') 0 [example_df] = example_df
   \<and> sim_cost 0 (Some ''A'') 0 [example_df] = 0
   \<and> sim_text 0 (Some ''A'') 0 [example_df] = []"
  using zero_delay_identity[of 0 "Some ''A''" "[example_df]"] by simp

text \<open>
  Claim C5 (amended). For a positive delay and a non-empty task name that matches exactly
  one row of a frame with unique index labels, the output frame is the input frame with
  one row replaced, and only the finish of that row differs (by 7 days per week of
  delay, which is not zero): the frames have the same length, every other row is
  equal, and the label, task, site, start, weekly cost, dependency and status of the
  matched row are unchanged.
\<close>

theorem single_field_mutation:
  assumes "0 < d" and "t \<noteq> []" and "unique_index (h ! ep)"
    and "task_mask t (h ! ep) = [(l, r)]"
  shows "\<exists>i<length (h ! ep). (h ! ep) ! i = (l, r) \<and>
           sim_frame ep (Some t) d h = (h ! ep)[i := (l, r\<lparr>Finish := Finish r + 7 * d\<rparr>)] \<and>
           Finish r + 7 * d \<noteq> Finish r \<and>
           length (sim_frame ep (Some t) d h) = length (h ! ep) \<and>
           (\<forall>j<length (h ! ep). j \<noteq> i \<longrightarrow> sim_frame ep (Some t) d h ! j = (h ! ep) ! j) \<and>
           fst (sim_frame ep (Some t) d h ! i) = l \<and>
           Task (snd (sim_frame ep (Some t) d h ! i)) = Task r \<and>
           Site (snd (sim_frame ep (Some t) d h ! i)) = Site r \<and>
           Start (snd (sim_frame ep (Some t) d h ! i)) = Start r \<and>
           Weekly_Cost_k (snd (sim_frame ep (Some t) d h ! i)) = Weekly_Cost_k r \<and>
           Dependencies (snd (sim_frame ep (Some t) d h ! i)) = Dependencies r \<and>
           Status (snd (sim_frame ep (Some t) d h ! i)) = Status r"
proof -
  from first_match_position[OF assms(3,4), of "7 * d"]
  obtain i where i: "i < length (h ! ep)" "(h ! ep) ! i = (l, r)"
    "loc_add_Finish l (7 * d) (h ! ep) = (h ! ep)[i := (l, r\<lparr>Finish := Finish r + 7 * d\<rparr>)]"
    by blast
  have f: "sim_frame ep (Some t) d h = (h ! ep)[i := (l, r\<lparr>Finish := Finish r + 7 * d\<rparr>)]"
    using sim_frame_match[OF assms(1,2,4)] i(3) by simp
  show ?thesis
    using i(1,2) assms(1) by (intro exI[of _ i]) (simp add: f)
qed

theorem single_field_mutation_witness:
  "sim_frame 0 (Some ''A'') 3 [example_df] = [(0, task_A\<lparr>Finish := 28\<rparr>), (1, task_B), (2, task_C)]"
proof -
  have u: "unique_index ([example_df] ! 0)" by (simp add: unique_index_def example_df_def)
  have m: "task_mask ''A'' ([example_df] ! 0) = [(0, task_A)]"
    by (simp add: ex_defs task_mask_def)
  from single_field_mutation[OF _ _ u m, of 3]
  obtain i where i: "i < length ([example_df] ! 0)" "([example_df] ! 0) ! i = (0, task_A)"
     "sim_frame 0 (Some ''A'') 3 [example_df] =
        ([example_df] ! 0)[i := (0, task_A\<lparr>Finish := Finish task_A + 7 * 3\<rparr>)]"
    by auto
  have "i = 0"
    using i(1,2) by (cases i) (auto simp: example_df_def nth_Cons split: nat.splits)
  then show ?thesis using i(3) by (simp add: ex_defs)
qed

text \<open>
  Claim C5 as stated fails for a task whose name is the empty string: the delay is
  3 weeks and the name matches exactly one row, but the output equals the input, so no
  finish differs.
\<close>

theorem single_field_mutation_empty_name_counterexample:
  "task_mask [] [(0, task_unnamed)] = [(0, task_unnamed)]
   \<and> sim_frame 0 (Some []) 3 [[(0, task_unnamed)]] = [(0, task_unnamed)]"
  by (simp add: task_mask_def task_unnamed_def sim_frame_def simulate_def copy_df_def new_df_def
      delay_applies_def truthy_def)




text \<open>
  Claim C7. When the working copy is empty, whatever the widgets return, the page
  selects no task and takes the delay to be 0, shows the warning
  \<^verbatim>\<open>No portfolio data for selected site.\<close>, a budget impact of 0, the no-conflict message
  and an empty chart; the guard of line 244 is false for every delay and every task, so
  the lookup is never reached; and the working copy is still empty after the rerun.
  The simulation block itself, run on an empty frame with any task and any delay,
  returns an empty copy, cost 0 and no message.
\<close>

theorem empty_working_copy_short_circuit:
  assumes "wf_state b (ss, h)" and "working_copy s b w (ss, h) = []"
  shows "simulation_controls w (working_copy s b w (ss, h)) =
           (None, 0, [St_warning ''No portfolio data for selected site.''])
       \<and> \<not> delay_applies d sel (working_copy s b w (ss, h))
       \<and> fst (portfolio_modeler s b w (ss, h)) =
           [St_warning ''No portfolio data for selected site.'',
            St_metric ''Calculated Budget Impact'' 0,
            St_success (check_mark @ '' No direct dependency conflicts detected.''),
            St_plotly_chart []]
       \<and> working_copy s b w (snd (portfolio_modeler s b w (ss, h))) = []
       \<and> (h ! ep = [] \<longrightarrow>
            simulate ep sel d h =
              (\<lparr>gantt_df = length h, impact_text = [], cost_impact = 0\<rparr>, h @ [[]]))"
proof -
  have c: "simulation_controls w [] =
           (None, 0, [St_warning ''No portfolio data for selected site.''])"
    by (simp add: simulation_controls_def empty_df_def)
  have g: "\<not> delay_applies d' sel' []" for d' sel'
    by (simp add: delay_applies_def empty_df_def)
  have s: "simulate 0 None 0 [[]] =
      (\<lparr>gantt_df = 1, impact_text = [], cost_impact = 0\<rparr>, [[], []])"
    using simulate_guard_false[of 0 None "[[]]" 0] g by simp
  have v: "view w [] =
           [St_warning ''No portfolio data for selected site.'',
            St_metric ''Calculated Budget Impact'' 0,
            St_success (check_mark @ '' No direct dependency conflicts detected.''),
            St_plotly_chart []]"
    using sim_projections[OF s] by (simp add: view_def c impact_message_def)
  have e: "simulate ep sel d h =
              (\<lparr>gantt_df = length h, impact_text = [], cost_impact = 0\<rparr>, h @ [[]])"
    if "h ! ep = []"
    using simulate_guard_false[of d sel h ep] g that by simp
  show ?thesis
    using c g v e page_outputs[OF assms(1), of s w] page_step[OF assms(1), of s w] assms(2)
    by simp
qed

theorem empty_working_copy_short_circuit_witness:
  "fst (portfolio_modeler ''Boston'' 0
          \<lparr>reset_button = False, selectbox_task = ''A'', slider_weeks = 5\<rparr>
          (\<lparr>edited_portfolio = None\<rparr>, [example_df])) =
     [St_warning ''No portfolio data for selected site.'',
      St_metric ''Calculated Budget Impact'' 0,
      St_success (check_mark @ '' No direct dependency conflicts detected.''),
      St_plotly_chart []]"
proof -
  have wf: "wf_state 0 (\<lparr>edited_portfolio = None\<rparr>, [example_df])"
    by (simp add: wf_state_def)
  have wc: "working_copy ''Boston'' 0
          \<lparr>reset_button = False, selectbox_task = ''A'', slider_weeks = 5\<rparr>
          (\<lparr>edited_portfolio = None\<rparr>, [example_df]) = []"
    by (simp add: working_copy_def loaded_eq site_mask_def ex_defs)
  from empty_working_copy_short_circuit[OF wf wc] show ?thesis by simp
qed

text \<open>
  Claim C8. With a specific site selected, the filter returns exactly the rows of the
  frame whose \<open>Site\<close> equals the selection, in their order: every returned row matches and
  no matching row is left out. With the sentinel \<^verbatim>\<open>West Coast (Overall)\<close> it returns every
  row. Hence the results for two different specific sites share no row, and the results
  for the site values of the frame together make up the whole frame.
\<close>

theorem filter_df_by_site_partition:
  "(s \<noteq> ''West Coast (Overall)'' \<longrightarrow>
      loaded s df h = filter (\<lambda>(l, r). Site r = s) (h ! df) \<and>
      set (loaded s df h) = {(l, r). (l, r) \<in> set (h ! df) \<and> Site r = s})
   \<and> loaded ''West Coast (Overall)'' df h = h ! df
   \<and> (s \<noteq> ''West Coast (Overall)'' \<and> s' \<noteq> ''West Coast (Overall)'' \<and> s \<noteq> s' \<longrightarrow>
        set (loaded s df h) \<inter> set (loaded s' df h) = {})
   \<and> (\<Union>v \<in> (Site \<circ> snd) ` set (h ! df). set (loaded v df h)) = set (h ! df)"
proof -
  have mask: "set (site_mask v d) = {(l, r). (l, r) \<in> set d \<and> Site r = v}" for v d
    by (auto simp: site_mask_def)
  have union: "(\<Union>v \<in> (Site \<circ> snd) ` set (h ! df). set (loaded v df h)) = set (h ! df)"
  proof
    show "(\<Union>v \<in> (Site \<circ> snd) ` set (h ! df). set (loaded v df h)) \<subseteq> set (h ! df)"
      by (auto simp: loaded_eq mask split: if_splits)
    show "set (h ! df) \<subseteq> (\<Union>v \<in> (Site \<circ> snd) ` set (h ! df). set (loaded v df h))"
    proof
      fix x assume x: "x \<in> set (h ! df)"
      obtain l r where lr: "x = (l, r)" by (cases x)
      have "x \<in> set (loaded (Site r) df h)"
        using x lr by (simp add: loaded_eq mask)
      moreover have "Site r \<in> (Site \<circ> snd) ` set (h ! df)"
        using x lr by force
      ultimately show "x \<in> (\<Union>v \<in> (Site \<circ> snd) ` set (h ! df). set (loaded v df h))"
        by blast
    qed
  qed
  have disj: "set (loaded s df h) \<inter> set (loaded s' df h) = {}"
    if "s \<noteq> ''West Coast (Overall)''" "s' \<noteq> ''West Coast (Overall)''" "s \<noteq> s'"
    using that by (auto simp: loaded_eq mask)
  show ?thesis
    using union disj by (simp add: loaded_eq mask) (simp add: site_mask_def)
qed

theorem filter_df_by_site_partition_witness:
  "loaded ''Seattle'' 0
     [[(0, \<lparr>Task = ''A'', Site = ''Seattle'', Start = 0, Finish = 7, Weekly_Cost_k = 10,
            Dependencies = None, Status = ''On Track''\<rparr>),
       (1, \<lparr>Task = ''B'', Site = ''San Diego'', Start = 0, Finish = 7, Weekly_Cost_k = 5,
            Dependencies = Some ''A'', Status = ''At Risk''\<rparr>)]]
   = [(0, \<lparr>Task = ''A'', Site = ''Seattle'', Start = 0, Finish = 7, Weekly_Cost_k = 10,
            Dependencies = None, Status = ''On Track''\<rparr>)]"
  using filter_df_by_site_partition [of "''Seattle''" 0
     "[[(0, \<lparr>Task = ''A'', Site = ''Seattle'', Start = 0, Finish = 7, Weekly_Cost_k = 10,
            Dependencies = None, Status = ''On Track''\<rparr>),
       (1, \<lparr>Task = ''B'', Site = ''San Diego'', Start = 0, Finish = 7, Weekly_Cost_k = 5,
            Dependencies = Some ''A'', Status = ''At Risk''\<rparr>)]]" "''San Diego''"]
  by simp



text \<open>
  Claim C10. Reruns of the page with the same widget values do not accumulate: after any
  number of reruns the page shows exactly what it shows on the first run, and the
  working copy it simulates on has the same content. When the selected task matches, the
  chart is the working copy with the delay added once to the finish of the row at the
  matched label.
\<close>

theorem reruns_do_not_accumulate:
  assumes "wf_state b (ss, h)"
  shows "fst (portfolio_modeler s b w (reruns n s b w (ss, h))) =
           fst (portfolio_modeler s b w (ss, h))
       \<and> working_copy s b w (reruns n s b w (ss, h)) = working_copy s b w (ss, h)
       \<and> (0 < slider_weeks w \<and> selectbox_task w \<noteq> [] \<and>
          task_mask (selectbox_task w) (working_copy s b w (ss, h)) = (l, r) # rest \<longrightarrow>
            last (fst (portfolio_modeler s b w (reruns n s b w (ss, h)))) =
              St_plotly_chart
                (loc_add_Finish l (7 * slider_weeks w) (working_copy s b w (ss, h))))"
proof -
  obtain ss' h' where st: "reruns n s b w (ss, h) = (ss', h')"
    by (cases "reruns n s b w (ss, h)")
  from reruns_invariant[OF assms, of n s w] st
  have wf: "wf_state b (ss', h')"
    and wc: "working_copy s b w (ss', h') = working_copy s b w (ss, h)"
    by simp_all
  have out: "fst (portfolio_modeler s b w (reruns n s b w (ss, h))) =
      view w (working_copy s b w (ss, h))"
    using page_outputs[OF wf, of s w] wc st by simp
  have same: "fst (portfolio_modeler s b w (reruns n s b w (ss, h))) =
           fst (portfolio_modeler s b w (ss, h))"
    using out page_outputs[OF assms, of s w] by simp
  have chart: "last (view w F) = St_plotly_chart (loc_add_Finish l (7 * slider_weeks w) F)"
    if "0 < slider_weeks w \<and> selectbox_task w \<noteq> [] \<and> task_mask (selectbox_task w) F = (l, r) # rest"
    for F
  proof -
    have ne: "F \<noteq> []" using that task_mask_nonempty by blast
    have c: "simulation_controls w F = (Some (selectbox_task w), slider_weeks w, [])"
      using ne by (simp add: simulation_controls_def empty_df_def)
    have "sim_frame 0 (Some (selectbox_task w)) (slider_weeks w) [F] =
        loc_add_Finish l (7 * slider_weeks w) F"
      using sim_frame_match[of "slider_weeks w" "selectbox_task w" "[F]" 0 l r rest] that by simp
    then show ?thesis by (simp add: view_def c)
  qed
  show ?thesis using same wc st out chart by simp
qed

theorem reruns_do_not_accumulate_witness:
  "fst (portfolio_modeler ''Seattle'' 0
          \<lparr>reset_button = False, selectbox_task = ''A'', slider_weeks = 3\<rparr>
          (reruns 4 ''Seattle'' 0 \<lparr>reset_button = False, selectbox_task = ''A'', slider_weeks = 3\<rparr>
             (\<lparr>edited_portfolio = None\<rparr>, [example_df]))) =
   [St_metric ''Calculated Budget Impact'' 30,
    St_error (dependency_alert ''A'' ''C''),
    St_plotly_chart [(0, task_A\<lparr>Finish := 28\<rparr>), (2, task_C)]]"
proof -
  have wf: "wf_state 0 (\<lparr>edited_portfolio = None\<rparr>, [example_df])"
    by (simp add: wf_state_def)
  have one: "fst (portfolio_modeler ''Seattle'' 0
          \<lparr>reset_button = False, selectbox_task = ''A'', slider_weeks = 3\<rparr>
          (\<lparr>edited_portfolio = None\<rparr>, [example_df])) =
   [St_metric ''Calculated Budget Impact'' 30,
    St_error (dependency_alert ''A'' ''C''),
    St_plotly_chart [(0, task_A\<lparr>Finish := 28\<rparr>), (2, task_C)]]"
    by (simp add: portfolio_modeler_def filter_df_by_site_def portfolio_columns_def new_df_def
        copy_df_def site_mask_def reset_simulation_def simulation_controls_def empty_df_def
        simulate_def delay_applies_def truthy_def task_mask_def dependency_mask_def
        loc_add_Finish_def timedelta_weeks_def impact_message_def dependency_alert_def
        siren_def np_int64_mul_def ex_defs)
  from reruns_do_not_accumulate[OF wf, of "''Seattle''"
      "\<lparr>reset_button = False, selectbox_task = ''A'', slider_weeks = 3\<rparr>" 4] one
  show ?thesis by simp
qed

end
